theory Spec2Isabelle
  imports Complex_Main
begin

section \<open>Text\<close>

text \<open>
  A Python \<open>str\<close> is a sequence of Unicode code points; it is modelled as the list of
  their numbers, so that \<open>len\<close> is \<open>length\<close> and \<open>ord\<close> is the identity.
  \<open>ascii\<close> reads an ASCII literal as such a text.
\<close>

type_synonym str = "nat list"

definition ascii :: "string \<Rightarrow> str" where
  "ascii s = map of_char s"

text \<open>
  A HOL string literal cannot hold a backslash. \<open>raw\<close> reads a literal in which
  \<open>~\<close> stands for the backslash (no pattern of the repository contains a tilde), so
  that \<open>raw ''ignore~s+''\<close> is the Python raw string \<open>r"ignore\s+"\<close>.
\<close>

definition raw :: "string \<Rightarrow> str" where
  "raw s = map (\<lambda>c. if c = CHR ''~'' then 92 else of_char c) s"

section \<open>The Python library: characters\<close>

text \<open>
  \<open>str.isspace\<close>, which is also the class \<open>\s\<close> of \<open>re\<close> on \<open>str\<close> patterns.
\<close>

definition is_space :: "nat \<Rightarrow> bool" where
  "is_space c \<longleftrightarrow>
     (9 \<le> c \<and> c \<le> 13) \<or> (28 \<le> c \<and> c \<le> 32) \<or> c = 0x85 \<or> c = 0xA0 \<or> c = 0x1680 \<or>
     (0x2000 \<le> c \<and> c \<le> 0x200A) \<or> c = 0x2028 \<or> c = 0x2029 \<or> c = 0x202F \<or>
     c = 0x205F \<or> c = 0x3000"

definition ascii_lower :: "nat \<Rightarrow> nat" where
  "ascii_lower c = (if 65 \<le> c \<and> c \<le> 90 then c + 32 else c)"

definition ascii_upper :: "nat \<Rightarrow> nat" where
  "ascii_upper c = (if 97 \<le> c \<and> c \<le> 122 then c - 32 else c)"

definition ascii_isalpha :: "nat \<Rightarrow> bool" where
  "ascii_isalpha c \<longleftrightarrow> (65 \<le> c \<and> c \<le> 90) \<or> (97 \<le> c \<and> c \<le> 122)"

definition ascii_isalnum :: "nat \<Rightarrow> bool" where
  "ascii_isalnum c \<longleftrightarrow> ascii_isalpha c \<or> (48 \<le> c \<and> c \<le> 57)"

text \<open>
  What Python takes from the Unicode character database for code points above 127 is not
  part of the repository; it is a parameter of the model. On ASCII the functions below are
  exact and do not look at the parameter.
  \<^item> \<open>u_lower\<close>: \<open>str.lower\<close> of a text that has a non-ASCII code point (it is not
    a per-character map and may change the length);
  \<^item> \<open>u_isalpha\<close>, \<open>u_isalnum\<close>: \<open>str.isalpha\<close>, \<open>str.isalnum\<close> of a non-ASCII code point;
  \<^item> \<open>u_ci_member\<close>: whether a non-ASCII code point matches an item of a character
    class under \<open>re.IGNORECASE\<close>.
\<close>

datatype cset = Lit nat | Rng nat nat | Space

record unicode_db =
  u_lower :: "str \<Rightarrow> str"
  u_isalpha :: "nat \<Rightarrow> bool"
  u_isalnum :: "nat \<Rightarrow> bool"
  u_ci_member :: "cset \<Rightarrow> nat \<Rightarrow> bool"

definition py_lower :: "unicode_db \<Rightarrow> str \<Rightarrow> str" where
  "py_lower U t = (if list_all (\<lambda>c. c < 128) t then map ascii_lower t else u_lower U t)"

definition py_isalpha :: "unicode_db \<Rightarrow> nat \<Rightarrow> bool" where
  "py_isalpha U c = (if c < 128 then ascii_isalpha c else u_isalpha U c)"

definition py_isalnum :: "unicode_db \<Rightarrow> nat \<Rightarrow> bool" where
  "py_isalnum U c = (if c < 128 then ascii_isalnum c else u_isalnum U c)"

section \<open>The Python library: regular expressions\<close>

text \<open>
  The compiled form of a pattern. \<open>Chars neg items\<close> matches one code point that is
  (or, when \<open>neg\<close>, is not) in one of the items; \<open>Rep lo hi r\<close> is the greedy
  repetition \<open>r{lo,hi}\<close>, without upper bound when \<open>hi\<close> is \<open>None\<close>. A compiled
  pattern object is the program with the case flag it was compiled under.
\<close>

datatype regex =
    Chars bool "cset list"
  | Eps
  | Seq regex regex
  | Alt regex regex
  | Rep nat "nat option" regex

record Pattern =
  prog :: regex
  ignorecase :: bool

fun item_match :: "cset \<Rightarrow> nat \<Rightarrow> bool" where
  "item_match (Lit a) c = (c = a)"
| "item_match (Rng a b) c = (a \<le> c \<and> c \<le> b)"
| "item_match Space c = is_space c"

text \<open>
  Under \<open>re.IGNORECASE\<close> an ASCII code point matches an item when one of its case
  variants does: its two ASCII cases and the code points that the engine folds onto an
  ASCII letter (U+0130 and U+0131 onto i, U+212A onto k, U+017F onto s).
\<close>

definition ci_variants :: "nat \<Rightarrow> nat list" where
  "ci_variants c =
     (let l = ascii_lower c in
      [l, ascii_upper c] @
      (if l = 105 then [0x130, 0x131] else if l = 107 then [0x212A]
       else if l = 115 then [0x17F] else []))"

definition item_match_ci :: "unicode_db \<Rightarrow> cset \<Rightarrow> nat \<Rightarrow> bool" where
  "item_match_ci U it c =
     (if it = Space then is_space c
      else if c < 128 then list_ex (item_match it) (ci_variants c)
      else u_ci_member U it c)"

definition plain_match :: "bool \<Rightarrow> cset list \<Rightarrow> nat \<Rightarrow> bool" where
  "plain_match neg items c =
     (let m = list_ex (\<lambda>it. item_match it c) items in if neg then \<not> m else m)"

definition ci_match :: "unicode_db \<Rightarrow> bool \<Rightarrow> cset list \<Rightarrow> nat \<Rightarrow> bool" where
  "ci_match U neg items c =
     (let m = list_ex (\<lambda>it. item_match_ci U it c) items in if neg then \<not> m else m)"

text \<open>
  The backtracking matcher. \<open>ends r cm s\<close> lists, in the order in which the engine
  tries them, the rests of \<open>s\<close> after each way of matching \<open>r\<close> at the start of
  \<open>s\<close>; the match the engine reports is the first one. A repetition \<open>r{lo,hi}\<close>
  runs its body \<open>lo\<close> times (\<open>rep_min\<close>) and then greedily up to \<open>hi - lo\<close> times
  more (\<open>rep_opt\<close>): each further iteration is tried before stopping, and an iteration
  that consumed nothing is not repeated. Every further iteration consumes a code point, so
  the text itself bounds their number: it is the third argument of \<open>rep_opt\<close>.
\<close>

fun rep_opt :: "(str \<Rightarrow> str list) \<Rightarrow> nat option \<Rightarrow> str \<Rightarrow> str \<Rightarrow> str list" where
  "rep_opt f hi [] s = [s]"
| "rep_opt f hi (x # bound) s =
     (if hi = Some 0 then [s]
      else concat (map (\<lambda>s'. if s' = s then []
                              else rep_opt f (map_option (\<lambda>h. h - 1) hi) bound s') (f s))
           @ [s])"

primrec rep_min :: "(str \<Rightarrow> str list) \<Rightarrow> nat \<Rightarrow> (str \<Rightarrow> str list) \<Rightarrow> str \<Rightarrow> str list" where
  "rep_min f 0 k s = k s"
| "rep_min f (Suc n) k s = concat (map (rep_min f n k) (f s))"

primrec ends :: "regex \<Rightarrow> (bool \<Rightarrow> cset list \<Rightarrow> nat \<Rightarrow> bool) \<Rightarrow> str \<Rightarrow> str list" where
  "ends (Chars neg items) cm s =
     (case s of [] \<Rightarrow> [] | c # cs \<Rightarrow> if cm neg items c then [cs] else [])"
| "ends Eps cm s = [s]"
| "ends (Seq a b) cm s = concat (map (ends b cm) (ends a cm s))"
| "ends (Alt a b) cm s = ends a cm s @ ends b cm s"
| "ends (Rep lo hi r) cm s =
     rep_min (ends r cm) lo
       (\<lambda>s'. rep_opt (ends r cm) (map_option (\<lambda>h. h - lo) hi) s' s') s"

text \<open>
  The scan of \<open>finditer\<close>, \<open>findall\<close> and \<open>sub\<close>: the leftmost match from the
  current position, then on from its end. After an empty match the engine looks at the same
  position again for a match that is not empty, so at most two matches start at a
  position. \<open>match_here\<close> gives their lengths (a rest equal to the text is an empty
  match), \<open>scan\<close> the spans
  \<open>(start, end)\<close>; \<open>skip\<close> counts the code points still covered by the last match.
\<close>

definition match_here :: "regex \<Rightarrow> (bool \<Rightarrow> cset list \<Rightarrow> nat \<Rightarrow> bool) \<Rightarrow> str \<Rightarrow> nat list" where
  "match_here r cm s =
     (case ends r cm s of
        [] \<Rightarrow> []
      | e # es \<Rightarrow>
          if e \<noteq> s then [length s - length e]
          else (case filter (\<lambda>e'. e' \<noteq> s) es of
                  [] \<Rightarrow> [0]
                | e' # _ \<Rightarrow> [0, length s - length e']))"

fun scan :: "regex \<Rightarrow> (bool \<Rightarrow> cset list \<Rightarrow> nat \<Rightarrow> bool) \<Rightarrow> nat \<Rightarrow> nat \<Rightarrow> str \<Rightarrow> (nat \<times> nat) list" where
  "scan r cm pos skip [] =
     (if skip = 0 then map (\<lambda>n. (pos, pos + n)) (match_here r cm []) else [])"
| "scan r cm pos skip (c # cs) =
     (if skip > 0 then scan r cm (pos + 1) (skip - 1) cs
      else let ms = match_here r cm (c # cs)
           in map (\<lambda>n. (pos, pos + n)) ms @
              scan r cm (pos + 1) (if ms = [] then 0 else last ms - 1) cs)"

definition finditer :: "unicode_db \<Rightarrow> Pattern \<Rightarrow> str \<Rightarrow> (nat \<times> nat) list" where
  "finditer U p t = scan (prog p) (if ignorecase p then ci_match U else plain_match) 0 0 t"

text \<open>
  The scan for a pattern compiled without flags, and \<open>re.sub\<close> for such a pattern with a
  function of the matched text as replacement.
\<close>

definition finditer_plain :: "regex \<Rightarrow> str \<Rightarrow> (nat \<times> nat) list" where
  "finditer_plain r t = scan r plain_match 0 0 t"

fun sub_spans :: "(str \<Rightarrow> str) \<Rightarrow> nat \<Rightarrow> (nat \<times> nat) list \<Rightarrow> str \<Rightarrow> str" where
  "sub_spans f pos [] t = t"
| "sub_spans f pos ((b, e) # sps) t =
     take (b - pos) t @ f (take (e - b) (drop (b - pos) t)) @ sub_spans f e sps (drop (e - pos) t)"

definition re_sub :: "regex \<Rightarrow> (str \<Rightarrow> str) \<Rightarrow> str \<Rightarrow> str" where
  "re_sub r f t = sub_spans f 0 (finditer_plain r t) t"

subsection \<open>Compiling pattern text\<close>

text \<open>
  \<open>re.compile\<close> for the syntax that the repository's patterns are written in:
  literals, the escapes \<open>\s \n \t \r \f \v \uXXXX\<close> and escaped punctuation,
  character classes with ranges and negation, groups \<open>(...)\<close> and \<open>(?:...)\<close>
  (captures are not modelled: only spans are read), alternation, and the greedy
  quantifiers \<open>? * + {m} {m,} {m,n}\<close>; the flags are \<open>0\<close> or \<open>re.IGNORECASE\<close>
  (2). \<open>None\<close> is \<open>re.error\<close>. Pattern text outside this fragment also gives
  \<open>None\<close>; the statements about every pattern text therefore take the compile function
  as a parameter, and \<open>re_compile\<close> is used on the patterns written in the source only.
  The number argument bounds the recursion depth and is chosen from the length of the text.
  Code points are written as numbers: 36 is \<open>$\<close>, 40 is \<open>(\<close>,
  41 is \<open>)\<close>, 42 is \<open>*\<close>, 43 is \<open>+\<close>,
  44 is \<open>,\<close>, 45 is \<open>-\<close>, 46 is \<open>.\<close>,
  58 is \<open>:\<close>, 63 is \<open>?\<close>, 91 is \<open>[\<close>,
  92 is the backslash, 93 is \<open>]\<close>, 94 is \<open>^\<close>,
  102 is \<open>f\<close>, 110 is \<open>n\<close>, 114 is \<open>r\<close>,
  115 is \<open>s\<close>, 116 is \<open>t\<close>, 117 is \<open>u\<close>,
  118 is \<open>v\<close>, 123 is \<open>{\<close>, 124 is \<open>|\<close>,
  125 is \<open>}\<close>.
\<close>

definition is_digit :: "nat \<Rightarrow> bool" where
  "is_digit c \<longleftrightarrow> 48 \<le> c \<and> c \<le> 57"

fun parse_nat :: "nat \<Rightarrow> str \<Rightarrow> nat \<times> str" where
  "parse_nat acc [] = (acc, [])"
| "parse_nat acc (c # cs) =
     (if is_digit c then parse_nat (10 * acc + (c - 48)) cs else (acc, c # cs))"

definition hex_val :: "nat \<Rightarrow> nat option" where
  "hex_val c =
     (if is_digit c then Some (c - 48)
      else if 97 \<le> c \<and> c \<le> 102 then Some (c - 87)
      else if 65 \<le> c \<and> c \<le> 70 then Some (c - 55)
      else None)"

fun parse_hex :: "nat \<Rightarrow> nat \<Rightarrow> str \<Rightarrow> (nat \<times> str) option" where
  "parse_hex 0 acc s = Some (acc, s)"
| "parse_hex (Suc n) acc [] = None"
| "parse_hex (Suc n) acc (c # cs) =
     (case hex_val c of None \<Rightarrow> None | Some v \<Rightarrow> parse_hex n (16 * acc + v) cs)"

definition parse_escape :: "str \<Rightarrow> (cset \<times> str) option" where
  "parse_escape s =
     (case s of
        [] \<Rightarrow> None
      | c # cs \<Rightarrow>
          if c = 115 then Some (Space, cs)
          else if c = 110 then Some (Lit 10, cs)
          else if c = 116 then Some (Lit 9, cs)
          else if c = 114 then Some (Lit 13, cs)
          else if c = 102 then Some (Lit 12, cs)
          else if c = 118 then Some (Lit 11, cs)
          else if c = 117 then
            (case parse_hex 4 0 cs of None \<Rightarrow> None | Some (v, cs') \<Rightarrow> Some (Lit v, cs'))
          else if c < 128 \<and> ascii_isalnum c then None
          else Some (Lit c, cs))"

definition parse_class_atom :: "str \<Rightarrow> (cset \<times> str) option" where
  "parse_class_atom s =
     (case s of
        [] \<Rightarrow> None
      | c # cs \<Rightarrow> if c = 92 then parse_escape cs else Some (Lit c, cs))"

definition cons_items :: "cset \<Rightarrow> (cset list \<times> str) option \<Rightarrow> (cset list \<times> str) option" where
  "cons_items a r = (case r of None \<Rightarrow> None | Some (items, s) \<Rightarrow> Some (a # items, s))"

fun parse_class :: "nat \<Rightarrow> bool \<Rightarrow> str \<Rightarrow> (cset list \<times> str) option" where
  "parse_class 0 first s = None"
| "parse_class (Suc n) first s =
     (case s of
        [] \<Rightarrow> None
      | c # cs \<Rightarrow>
          if c = 93 \<and> \<not> first then Some ([], cs)
          else
            (case parse_class_atom s of
               None \<Rightarrow> None
             | Some (a, s1) \<Rightarrow>
                 (case s1 of
                    d # e # s2 \<Rightarrow>
                      if d = 45 \<and> e \<noteq> 93 then
                        (case parse_class_atom (e # s2) of
                           None \<Rightarrow> None
                         | Some (b, s3) \<Rightarrow>
                             (case (a, b) of
                                (Lit x, Lit y) \<Rightarrow>
                                  if x \<le> y then cons_items (Rng x y) (parse_class n False s3)
                                  else None
                              | _ \<Rightarrow> None))
                      else cons_items a (parse_class n False s1)
                  | _ \<Rightarrow> cons_items a (parse_class n False s1))))"

text \<open>The quantifier after an atom, if there is one.\<close>

definition parse_quant :: "regex \<Rightarrow> str \<Rightarrow> (regex \<times> str) option" where
  "parse_quant r s =
     (case s of
        [] \<Rightarrow> Some (r, [])
      | c # cs \<Rightarrow>
          if c = 63 then Some (Rep 0 (Some 1) r, cs)
          else if c = 42 then Some (Rep 0 None r, cs)
          else if c = 43 then Some (Rep 1 None r, cs)
          else if c = 123 then
            (case cs of
               [] \<Rightarrow> None
             | d # _ \<Rightarrow>
                 if \<not> is_digit d then None
                 else
                   (case parse_nat 0 cs of
                      (lo, e # s1) \<Rightarrow>
                        if e = 125 then Some (Rep lo (Some lo) r, s1)
                        else if e = 44 then
                          (case s1 of
                             [] \<Rightarrow> None
                           | g # s2 \<Rightarrow>
                               if g = 125 then Some (Rep lo None r, s2)
                               else if \<not> is_digit g then None
                               else
                                 (case parse_nat 0 s1 of
                                    (hi, h # s3) \<Rightarrow>
                                      if h = 125 \<and> lo \<le> hi
                                      then Some (Rep lo (Some hi) r, s3) else None
                                  | _ \<Rightarrow> None))
                        else None
                    | _ \<Rightarrow> None))
          else Some (r, s))"

fun p_alt :: "nat \<Rightarrow> str \<Rightarrow> (regex \<times> str) option"
and p_seq :: "nat \<Rightarrow> str \<Rightarrow> (regex \<times> str) option"
and p_atom :: "nat \<Rightarrow> str \<Rightarrow> (regex \<times> str) option" where
  "p_alt 0 s = None"
| "p_alt (Suc n) s =
     (case p_seq n s of
        None \<Rightarrow> None
      | Some (r, s1) \<Rightarrow>
          (case s1 of
             [] \<Rightarrow> Some (r, [])
           | c # s2 \<Rightarrow>
               if c = 124 then
                 (case p_alt n s2 of None \<Rightarrow> None | Some (r2, s3) \<Rightarrow> Some (Alt r r2, s3))
               else Some (r, s1)))"
| "p_seq 0 s = None"
| "p_seq (Suc n) s =
     (case s of
        [] \<Rightarrow> Some (Eps, [])
      | c # cs \<Rightarrow>
          if c = 124 \<or> c = 41 then Some (Eps, s)
          else
            (case p_atom n s of
               None \<Rightarrow> None
             | Some (a, s1) \<Rightarrow>
                 (case parse_quant a s1 of
                    None \<Rightarrow> None
                  | Some (q, s2) \<Rightarrow>
                      (case p_seq n s2 of
                         None \<Rightarrow> None
                       | Some (r, s3) \<Rightarrow> Some (Seq q r, s3)))))"
| "p_atom 0 s = None"
| "p_atom (Suc n) s =
     (case s of
        [] \<Rightarrow> None
      | c # cs \<Rightarrow>
          if c = 40 then
            (let body = (case cs of
                           q # cs1 \<Rightarrow>
                             if q = 63 then
                               (case cs1 of
                                  k # cs2 \<Rightarrow> if k = 58 then Some cs2 else None
                                | [] \<Rightarrow> None)
                             else Some cs
                         | [] \<Rightarrow> Some cs)
             in case body of
                  None \<Rightarrow> None
                | Some b \<Rightarrow>
                    (case p_alt n b of
                       None \<Rightarrow> None
                     | Some (r, s1) \<Rightarrow>
                         (case s1 of
                            d # s2 \<Rightarrow> if d = 41 then Some (r, s2) else None
                          | [] \<Rightarrow> None)))
          else if c = 91 then
            (case cs of
               d # cs1 \<Rightarrow>
                 if d = 94 then
                   (case parse_class (length cs1) True cs1 of
                      None \<Rightarrow> None
                    | Some (items, s1) \<Rightarrow> Some (Chars True items, s1))
                 else
                   (case parse_class (length cs) True cs of
                      None \<Rightarrow> None
                    | Some (items, s1) \<Rightarrow> Some (Chars False items, s1))
             | [] \<Rightarrow> None)
          else if c = 92 then
            (case parse_escape cs of
               None \<Rightarrow> None
             | Some (it, s1) \<Rightarrow> Some (Chars False [it], s1))
          else if c = 46 \<or> c = 94 \<or> c = 36 \<or>
                  c = 63 \<or> c = 42 \<or> c = 43 \<or>
                  c = 123 then None
          else Some (Chars False [Lit c], cs))"

definition re_parse :: "str \<Rightarrow> regex option" where
  "re_parse s =
     (case p_alt (3 * length s + 3) s of
        Some (r, []) \<Rightarrow> Some r
      | _ \<Rightarrow> None)"

definition re_compile :: "str \<Rightarrow> nat \<Rightarrow> Pattern option" where
  "re_compile s fl =
     (if fl = 0 \<or> fl = 2 then
        (case re_parse s of
           None \<Rightarrow> None
         | Some r \<Rightarrow> Some \<lparr>prog = r, ignorecase = (fl = 2)\<rparr>)
      else None)"

section \<open>patterns.py: the pattern catalog\<close>

datatype PatternCategory =
    INSTRUCTION_OVERRIDE
  | ROLE_MANIPULATION
  | CONTEXT_ESCAPE
  | DATA_EXFILTRATION
  | JAILBREAK
  | ENCODING_ABUSE
  | DELIMITER_ABUSE
  | PROMPT_LEAKING

text \<open>
  \<open>InjectionPattern\<close>: \<open>pattern\<close> is the source text of the regular expression and
  \<open>flags\<close> the integer handed to \<open>re.compile\<close> (\<open>re.IGNORECASE\<close> is 2, the
  default). The fields \<open>description\<close> and \<open>examples\<close> are documentation and are left
  out. Floats are modelled as reals.
\<close>

record InjectionPattern =
  name :: str
  pattern :: str
  category :: PatternCategory
  severity :: real
  flags :: nat

text \<open>
  \<open>PatternMatch\<close>; its fields \<open>pattern\<close>, \<open>start\<close>, \<open>end\<close> and \<open>context\<close>
  carry the prefix \<open>m_\<close> here.
\<close>

record PatternMatch =
  m_pattern :: InjectionPattern
  matched_text :: str
  m_start :: nat
  m_end :: nat
  m_context :: str

datatype py_error = ReError | ZeroDivisionError

text \<open>
  The property \<open>compiled\<close> compiles the pattern text at its first use and keeps the
  result; \<open>re.compile\<close> raises \<open>re.error\<close> on text that is not a regular
  expression. The compile function is a parameter: \<open>None\<close> is the exception.
\<close>

definition compiled :: "(str \<Rightarrow> nat \<Rightarrow> Pattern option) \<Rightarrow> InjectionPattern \<Rightarrow> py_error + Pattern" where
  "compiled cmp p = (case cmp (pattern p) (flags p) of None \<Rightarrow> Inl ReError | Some c \<Rightarrow> Inr c)"

text \<open>An entry of the default catalog: the flags are the default \<open>re.IGNORECASE\<close>.\<close>

definition pat :: "string \<Rightarrow> string \<Rightarrow> PatternCategory \<Rightarrow> real \<Rightarrow> InjectionPattern" where
  "pat n r c s = \<lparr>name = ascii n, pattern = raw r, category = c, severity = s, flags = 2\<rparr>"

definition default_patterns :: "InjectionPattern list" where
  "default_patterns =
    [pat ''ignore_instructions''
       ''ignore~s+(all~s+)?(previous~s+)?(instructions?|prompts?|rules?)''
       INSTRUCTION_OVERRIDE (9 / 10),
     pat ''forget_instructions''
       ''forget~s+(all~s+)?(previous~s+)?(instructions?|prompts?|context)''
       INSTRUCTION_OVERRIDE (9 / 10),
     pat ''disregard_instructions''
       ''disregard~s+(all~s+)?(previous~s+)?(instructions?|prompts?)''
       INSTRUCTION_OVERRIDE (9 / 10),
     pat ''new_instructions''
       ''your~s+new~s+(instructions?|task|role|purpose)~s+(is|are)''
       INSTRUCTION_OVERRIDE (17 / 20),
     pat ''override_system''
       ''(override|bypass|circumvent)~s+(the~s+)?(system|base)~s+(prompt|instructions?)''
       INSTRUCTION_OVERRIDE (19 / 20),
     pat ''pretend_role''
       ''(pretend|act|behave)~s+(you~s+are|as~s+if|like)~s+(a~s+)?''
       ROLE_MANIPULATION (7 / 10),
     pat ''you_are_now''
       ''you~s+are~s+now~s+(a|an|the)~s+''
       ROLE_MANIPULATION (3 / 4),
     pat ''roleplay_request''
       ''(roleplay|role-play|rp)~s+as~s+''
       ROLE_MANIPULATION (3 / 5),
     pat ''imagine_you''
       ''imagine~s+(that~s+)?you~s+(are|were|have)''
       ROLE_MANIPULATION (3 / 5),
     pat ''end_of_prompt''
       ''(END|end)~s+(of~s+)?(PROMPT|prompt|SYSTEM|system|INPUT|input)''
       CONTEXT_ESCAPE (17 / 20),
     pat ''delimiter_injection''
       ''(~[/?INST~]|~[/?SYS~]|<~|im_start~|>|<~|im_end~|>|###|~n---~n)''
       CONTEXT_ESCAPE (4 / 5),
     pat ''system_tag''
       ''</?system>|<<SYS>>|<~|system~|>''
       CONTEXT_ESCAPE (17 / 20),
     pat ''assistant_injection''
       ''(Assistant|AI|Bot):~s*''
       CONTEXT_ESCAPE (7 / 10),
     pat ''dan_jailbreak''
       ''(DAN|do~s+anything~s+now|jailbreak|jailbroken)''
       JAILBREAK (19 / 20),
     pat ''developer_mode''
       ''(developer|dev)~s+mode|enable~s+developer''
       JAILBREAK (9 / 10),
     pat ''unrestricted_mode''
       ''(unrestricted|unfiltered|uncensored)~s+(mode|version|output)''
       JAILBREAK (9 / 10),
     pat ''bypass_safety''
       ''(bypass|disable|ignore|remove)~s+(safety|content|ethical)~s+(filter|restriction|guideline)''
       JAILBREAK (19 / 20),
     pat ''reveal_prompt''
       ''(reveal|show|display|print|output)~s+(your~s+)?(system~s+)?(prompt|instructions?|rules?)''
       DATA_EXFILTRATION (4 / 5),
     pat ''repeat_everything''
       ''repeat~s+(everything|all|back)~s+(above|before|you~s+were~s+told)''
       DATA_EXFILTRATION (17 / 20),
     pat ''training_data''
       ''(training|internal)~s+(data|information|details)''
       DATA_EXFILTRATION (7 / 10),
     pat ''what_is_prompt''
       ''what~s+(is|are|was)~s+(your|the)~s+(system~s+)?(prompt|instructions?)''
       PROMPT_LEAKING (3 / 4),
     pat ''summarize_instructions''
       ''(summarize|explain|describe)~s+(your~s+)?(system~s+)?(instructions?|guidelines?|rules?)''
       PROMPT_LEAKING (7 / 10),
     pat ''base64_pattern''
       ''(?:[A-Za-z0-9+/]{4}){10,}(?:[A-Za-z0-9+/]{2}==|[A-Za-z0-9+/]{3}=)?''
       ENCODING_ABUSE (1 / 2),
     pat ''unicode_abuse''
       ''[~u200b-~u200f~u2028-~u202f~u2060-~u206f]''
       ENCODING_ABUSE (3 / 5),
     pat ''hex_encoded''
       ''~~x[0-9a-fA-F]{2}|%[0-9a-fA-F]{2}''
       ENCODING_ABUSE (1 / 2)]"

text \<open>
  The constructor: \<open>self.patterns = patterns or self._default_patterns()\<close>, so that an
  empty list gives the default catalog as well.
\<close>

definition PatternMatcher :: "InjectionPattern list option \<Rightarrow> InjectionPattern list" where
  "PatternMatcher patterns =
     (case patterns of None \<Rightarrow> default_patterns | Some [] \<Rightarrow> default_patterns | Some ps \<Rightarrow> ps)"

text \<open>
  \<open>PatternMatcher.patterns\<close> is a Python list; the methods that mutate it return the
  new list here. \<open>add_pattern\<close> appends, \<open>remove_pattern\<close> keeps the entries with
  another name and reports whether the list got shorter, \<open>get_pattern\<close> returns the
  first entry with the name.
\<close>

definition add_pattern :: "InjectionPattern \<Rightarrow> InjectionPattern list \<Rightarrow> InjectionPattern list" where
  "add_pattern p patterns = patterns @ [p]"

definition remove_pattern :: "str \<Rightarrow> InjectionPattern list \<Rightarrow> InjectionPattern list \<times> bool" where
  "remove_pattern nm patterns =
     (let original = length patterns;
          patterns' = filter (\<lambda>p. name p \<noteq> nm) patterns
      in (patterns', length patterns' < original))"

fun get_pattern :: "str \<Rightarrow> InjectionPattern list \<Rightarrow> InjectionPattern option" where
  "get_pattern nm [] = None"
| "get_pattern nm (p # ps) = (if name p = nm then Some p else get_pattern nm ps)"

text \<open>
  \<open>match\<close>: every pattern in catalog order, every match of \<open>finditer\<close> in text order,
  with the context clamped to the text. \<open>matches_for\<close> is the body of the loop over
  the patterns; the first pattern that does not compile raises.
  \<open>context_window\<close> is a natural number (the detector passes the default 50).
\<close>

definition matches_of :: "unicode_db \<Rightarrow> InjectionPattern \<Rightarrow> Pattern \<Rightarrow> str \<Rightarrow> nat \<Rightarrow> PatternMatch list" where
  "matches_of U p c t context_window =
     map (\<lambda>(b, e).
            let start = b - context_window;
                end' = min (length t) (e + context_window)
            in \<lparr>m_pattern = p, matched_text = take (e - b) (drop b t), m_start = b, m_end = e,
                m_context = take (end' - start) (drop start t)\<rparr>)
         (finditer U c t)"

definition matches_for :: "(str \<Rightarrow> nat \<Rightarrow> Pattern option) \<Rightarrow> unicode_db \<Rightarrow> InjectionPattern \<Rightarrow> str \<Rightarrow> nat
    \<Rightarrow> py_error + PatternMatch list" where
  "matches_for cmp U p t cw =
     (case compiled cmp p of Inl e \<Rightarrow> Inl e | Inr c \<Rightarrow> Inr (matches_of U p c t cw))"

fun match_patterns :: "(str \<Rightarrow> nat \<Rightarrow> Pattern option) \<Rightarrow> unicode_db \<Rightarrow> InjectionPattern list \<Rightarrow> str \<Rightarrow> nat
    \<Rightarrow> py_error + PatternMatch list" where
  "match_patterns cmp U [] t cw = Inr []"
| "match_patterns cmp U (p # ps) t cw =
     (case matches_for cmp U p t cw of
        Inl e \<Rightarrow> Inl e
      | Inr ms \<Rightarrow>
          (case match_patterns cmp U ps t cw of
             Inl e \<Rightarrow> Inl e
           | Inr ms' \<Rightarrow> Inr (ms @ ms')))"

section \<open>The Python library: strings\<close>

text \<open>\<open>str.split()\<close> without argument and \<open>str.strip()\<close>.\<close>

fun py_split_aux :: "str \<Rightarrow> str \<Rightarrow> str list" where
  "py_split_aux w [] = (if w = [] then [] else [w])"
| "py_split_aux w (c # cs) =
     (if is_space c then (if w = [] then py_split_aux [] cs else w # py_split_aux [] cs)
      else py_split_aux (w @ [c]) cs)"

definition py_split :: "str \<Rightarrow> str list" where
  "py_split t = py_split_aux [] t"

definition py_strip :: "str \<Rightarrow> str" where
  "py_strip t = rev (dropWhile is_space (rev (dropWhile is_space t)))"

section \<open>heuristics.py\<close>

datatype HeuristicType =
    ENTROPY
  | LENGTH
  | STRUCTURE
  | REPETITION
  | SPECIAL_CHARS
  | LANGUAGE_SWITCH
  | INSTRUCTION_DENSITY

text \<open>
  \<open>HeuristicResult\<close> without \<open>details\<close> and \<open>message\<close>, which report the
  quantities that \<open>triggered\<close> and \<open>score\<close> are computed from and are read by no
  other code.
\<close>

record HeuristicResult =
  heuristic_type :: HeuristicType
  triggered :: bool
  score :: real

record HeuristicConfig =
  max_entropy :: real
  min_entropy :: real
  max_length :: int
  suspicious_length :: int
  max_repetition_ratio :: real
  max_special_char_ratio :: real
  instruction_word_weight :: real
  weights :: "HeuristicType \<rightharpoonup> real"

definition default_weights :: "HeuristicType \<rightharpoonup> real" where
  "default_weights =
     [ENTROPY \<mapsto> 15 / 100, LENGTH \<mapsto> 1 / 10, STRUCTURE \<mapsto> 2 / 10, REPETITION \<mapsto> 15 / 100,
      SPECIAL_CHARS \<mapsto> 15 / 100, LANGUAGE_SWITCH \<mapsto> 1 / 10, INSTRUCTION_DENSITY \<mapsto> 15 / 100]"

definition default_heuristic_config :: HeuristicConfig where
  "default_heuristic_config =
     \<lparr>max_entropy = 55 / 10, min_entropy = 1, max_length = 10000, suspicious_length = 5000,
      max_repetition_ratio = 3 / 10, max_special_char_ratio = 2 / 10,
      instruction_word_weight = 5 / 10, weights = default_weights\<rparr>"

definition instruction_words :: "str list" where
  "instruction_words = map ascii
     [''ignore'', ''forget'', ''disregard'', ''override'', ''bypass'',
      ''pretend'', ''imagine'', ''act'', ''roleplay'', ''behave'',
      ''system'', ''prompt'', ''instruction'', ''rule'', ''guideline'',
      ''reveal'', ''show'', ''display'', ''output'', ''print'',
      ''jailbreak'', ''developer'', ''unrestricted'', ''unfiltered'',
      ''assistant'', ''ai'', ''bot'', ''model'', ''gpt'', ''claude'']"

text \<open>
  \<open>check_entropy\<close>. The counts are those of the lowered text, the total is the length
  of the text itself, as in the source.
\<close>

definition entropy :: "str \<Rightarrow> nat \<Rightarrow> real" where
  "entropy low n =
     0 - (\<Sum>ch\<leftarrow>remdups low.
            let prob = real (count_list low ch) / real n
            in if prob > 0 then prob * log 2 prob else 0)"

definition check_entropy :: "unicode_db \<Rightarrow> HeuristicConfig \<Rightarrow> str \<Rightarrow> HeuristicResult" where
  "check_entropy U cfg t =
     (if t = [] then \<lparr>heuristic_type = ENTROPY, triggered = False, score = 0\<rparr>
      else
        let e = entropy (py_lower U t) (length t);
            trig = (e > max_entropy cfg \<or> e < min_entropy cfg);
            sc = (if e > max_entropy cfg then min 1 ((e - max_entropy cfg) / 2)
                  else if e < min_entropy cfg then min 1 ((min_entropy cfg - e) / 1)
                  else 0)
        in \<lparr>heuristic_type = ENTROPY, triggered = trig, score = sc\<rparr>)"

text \<open>
  \<open>check_length\<close>. The first branch divides by \<open>max_length\<close>; Python raises
  \<open>ZeroDivisionError\<close> when it is zero. In the second branch the divisor is positive.
\<close>

definition check_length :: "HeuristicConfig \<Rightarrow> str \<Rightarrow> py_error + HeuristicResult" where
  "check_length cfg t =
     (let len = int (length t) in
      if len > max_length cfg then
        (if max_length cfg = 0 then Inl ZeroDivisionError
         else Inr \<lparr>heuristic_type = LENGTH, triggered = True,
                    score = min 1 (real_of_int (len - max_length cfg) / real_of_int (max_length cfg))\<rparr>)
      else if len > suspicious_length cfg then
        Inr \<lparr>heuristic_type = LENGTH, triggered = True,
             score = real_of_int (len - suspicious_length cfg)
                     / real_of_int (max_length cfg - suspicious_length cfg) * (5 / 10)\<rparr>
      else Inr \<lparr>heuristic_type = LENGTH, triggered = False, score = 0\<rparr>)"

text \<open>
  \<open>check_structure\<close>. The two patterns are compiled without flags; they are given
  in compiled form (\<open>r"(###|---|\n\n\n+|={3,}|\*{3,})"\<close> and
  \<open>r'["\'\`]{3,}|</?[a-zA-Z]+>|\[/?[A-Z]+\]'\<close>).
\<close>

definition section_markers_re :: regex where
  "section_markers_re =
     Seq (Alt (Seq (Chars False [Lit 35]) (Seq (Chars False [Lit 35]) (Seq (Chars False [Lit 35]) Eps)))
         (Alt (Seq (Chars False [Lit 45]) (Seq (Chars False [Lit 45]) (Seq (Chars False [Lit 45]) Eps)))
           (Alt (Seq (Chars False [Lit 10]) (Seq (Chars False [Lit 10])
                  (Seq (Rep 1 None (Chars False [Lit 10])) Eps)))
             (Alt (Seq (Rep 3 None (Chars False [Lit 61])) Eps)
               (Seq (Rep 3 None (Chars False [Lit 42])) Eps)))))
       Eps"

definition delimiter_types_re :: regex where
  "delimiter_types_re =
     Alt (Seq (Rep 3 None (Chars False [Lit 34, Lit 39, Lit 96])) Eps)
       (Alt (Seq (Chars False [Lit 60])
              (Seq (Rep 0 (Some 1) (Chars False [Lit 47]))
                (Seq (Rep 1 None (Chars False [Rng 97 122, Rng 65 90]))
                  (Seq (Chars False [Lit 62]) Eps))))
         (Seq (Chars False [Lit 91])
           (Seq (Rep 0 (Some 1) (Chars False [Lit 47]))
             (Seq (Rep 1 None (Chars False [Rng 65 90]))
               (Seq (Chars False [Lit 93]) Eps)))))"

fun bracket_depth :: "int \<Rightarrow> int \<Rightarrow> str \<Rightarrow> int" where
  "bracket_depth depth max_depth [] = max_depth"
| "bracket_depth depth max_depth (c # cs) =
     (if c \<in> set (ascii ''([{'') then bracket_depth (depth + 1) (max max_depth (depth + 1)) cs
      else if c \<in> set (ascii '')]}'') then bracket_depth (depth - 1) max_depth cs
      else bracket_depth depth max_depth cs)"

definition check_structure :: "str \<Rightarrow> HeuristicResult" where
  "check_structure t =
     (let section_markers = finditer_plain section_markers_re t;
          many = (length section_markers > 5);
          max_depth = bracket_depth 0 0 t;
          deep = (max_depth > 10);
          delimiter_types =
            remdups (map (\<lambda>(b, e). take 3 (take (e - b) (drop b t)))
                       (finditer_plain delimiter_types_re t));
          mixed = (length delimiter_types > 3);
          sc = (if many then 3 / 10 else 0) + (if deep then 2 / 10 else 0)
               + (if mixed then 3 / 10 else 0)
      in \<lparr>heuristic_type = STRUCTURE, triggered = (many \<or> deep \<or> mixed), score = min 1 sc\<rparr>)"

text \<open>
  \<open>check_repetition\<close>. The loop over the characters keeps the previous character
  (\<open>None\<close> for the initial empty string), the running count and its maximum.
\<close>

fun max_char_repeat :: "nat option \<Rightarrow> nat \<Rightarrow> nat \<Rightarrow> str \<Rightarrow> nat" where
  "max_char_repeat prev repeat_count max_repeat [] = max_repeat"
| "max_char_repeat prev repeat_count max_repeat (c # cs) =
     (if Some c = prev
      then max_char_repeat (Some c) (repeat_count + 1) (max max_repeat (repeat_count + 1)) cs
      else max_char_repeat (Some c) 1 max_repeat cs)"

definition max_count :: "str list \<Rightarrow> nat" where
  "max_count ws = fold max (map (count_list ws) ws) 0"

definition check_repetition :: "unicode_db \<Rightarrow> HeuristicConfig \<Rightarrow> str \<Rightarrow> HeuristicResult" where
  "check_repetition U cfg t =
     (if length t < 20 then \<lparr>heuristic_type = REPETITION, triggered = False, score = 0\<rparr>
      else
        let max_repeat = max_char_repeat None 0 0 t;
            ws = py_split (py_lower U t);
            word_repeat_ratio = (if ws \<noteq> [] then real (max_count ws) / real (length ws) else 0);
            char_repeat = (max_repeat > 10);
            word_repeat = (word_repeat_ratio > max_repetition_ratio cfg);
            sc = (if char_repeat then 4 / 10 else 0) + (if word_repeat then 4 / 10 else 0)
        in \<lparr>heuristic_type = REPETITION,
            triggered = ((char_repeat \<or> word_repeat) \<or> sc > 3 / 10), score = min 1 sc\<rparr>)"

definition check_special_chars :: "unicode_db \<Rightarrow> HeuristicConfig \<Rightarrow> str \<Rightarrow> HeuristicResult" where
  "check_special_chars U cfg t =
     (if t = [] then \<lparr>heuristic_type = SPECIAL_CHARS, triggered = False, score = 0\<rparr>
      else
        let special_count = length (filter (\<lambda>c. \<not> py_isalnum U c \<and> \<not> is_space c) t);
            special_ratio = real special_count / real (length t);
            control_chars = length (filter (\<lambda>c. c < 32 \<and> c \<notin> {10, 13, 9}) t);
            unusual_unicode = length (filter (\<lambda>c. c > 127 \<and> \<not> py_isalpha U c) t);
            high = (special_ratio > max_special_char_ratio cfg);
            ctrl = (control_chars > 0);
            unusual = (real unusual_unicode > real (length t) * (1 / 10));
            sc = (if high then 4 / 10 else 0) + (if ctrl then 3 / 10 else 0)
                 + (if unusual then 3 / 10 else 0)
        in \<lparr>heuristic_type = SPECIAL_CHARS, triggered = (high \<or> ctrl \<or> unusual),
            score = min 1 sc\<rparr>)"

text \<open>\<open>check_language_switch\<close>: the four script counters, in the order of the dictionary.\<close>

definition script_counts :: "str \<Rightarrow> nat list" where
  "script_counts t =
     [length (filter (\<lambda>c. c \<le> 0x7F) t),
      length (filter (\<lambda>c. 0x400 \<le> c \<and> c \<le> 0x4FF) t),
      length (filter (\<lambda>c. 0x4E00 \<le> c \<and> c \<le> 0x9FFF) t),
      length (filter (\<lambda>c. c > 0x7F \<and> \<not> (0x400 \<le> c \<and> c \<le> 0x4FF)
                            \<and> \<not> (0x4E00 \<le> c \<and> c \<le> 0x9FFF)) t)]"

definition check_language_switch :: "str \<Rightarrow> HeuristicResult" where
  "check_language_switch t =
     (let active_scripts = length (filter (\<lambda>v. v > 10) (script_counts t))
      in \<lparr>heuristic_type = LANGUAGE_SWITCH, triggered = (active_scripts > 2),
          score = (if active_scripts > 1 then min 1 (real (active_scripts - 1) * (3 / 10)) else 0)\<rparr>)"

definition check_instruction_density :: "unicode_db \<Rightarrow> str \<Rightarrow> HeuristicResult" where
  "check_instruction_density U t =
     (let ws = py_split (py_lower U t) in
      if ws = [] then \<lparr>heuristic_type = INSTRUCTION_DENSITY, triggered = False, score = 0\<rparr>
      else
        let instruction_count = length (filter (\<lambda>w. w \<in> set instruction_words) ws);
            density = real instruction_count / real (length ws)
        in \<lparr>heuristic_type = INSTRUCTION_DENSITY, triggered = (density > 1 / 10),
            score = min 1 (density * 5)\<rparr>)"

text \<open>\<open>analyze\<close>: the seven checks in the order of the source; only the length check can raise.\<close>

definition analyze :: "unicode_db \<Rightarrow> HeuristicConfig \<Rightarrow> str \<Rightarrow> py_error + HeuristicResult list" where
  "analyze U cfg t =
     (case check_length cfg t of
        Inl e \<Rightarrow> Inl e
      | Inr len_result \<Rightarrow>
          Inr [check_entropy U cfg t, len_result, check_structure t, check_repetition U cfg t,
               check_special_chars U cfg t, check_language_switch t,
               check_instruction_density U t])"

text \<open>
  \<open>get_combined_score\<close>: the loop adds \<open>score * weight\<close> and \<open>weight\<close> for every
  result of the list; \<open>weight_of\<close> is \<open>self.config.weights.get(result.heuristic_type, 0.1)\<close>.
\<close>

definition weight_of :: "HeuristicConfig \<Rightarrow> HeuristicResult \<Rightarrow> real" where
  "weight_of cfg r = (case weights cfg (heuristic_type r) of None \<Rightarrow> 1 / 10 | Some x \<Rightarrow> x)"

fun combine_loop :: "HeuristicConfig \<Rightarrow> real \<Rightarrow> real \<Rightarrow> HeuristicResult list \<Rightarrow> real \<times> real" where
  "combine_loop cfg total_weight weighted_score [] = (total_weight, weighted_score)"
| "combine_loop cfg total_weight weighted_score (r # rs) =
     (let weight = weight_of cfg r
      in combine_loop cfg (total_weight + weight) (weighted_score + score r * weight) rs)"

definition get_combined_score :: "HeuristicConfig \<Rightarrow> HeuristicResult list \<Rightarrow> real" where
  "get_combined_score cfg results =
     (case combine_loop cfg 0 0 results of
        (total_weight, weighted_score) \<Rightarrow>
          if total_weight > 0 then weighted_score / total_weight else 0)"

section \<open>scoring.py\<close>

datatype RiskLevel = SAFE | LOW | MEDIUM | HIGH | CRITICAL

text \<open>
  \<open>RiskScore\<close> without \<open>category_scores\<close>, \<open>flags\<close> and \<open>recommendation\<close>:
  they are reporting fields, computed after the score and the level and read by neither.
\<close>

record RiskScore =
  overall_score :: real
  risk_level :: RiskLevel
  pattern_score :: real
  heuristic_score :: real

record ScoringConfig =
  pattern_weight :: real
  heuristic_weight :: real
  low_threshold :: real
  medium_threshold :: real
  high_threshold :: real
  critical_threshold :: real
  category_weights :: "PatternCategory \<rightharpoonup> real"

definition default_category_weights :: "PatternCategory \<rightharpoonup> real" where
  "default_category_weights =
     [INSTRUCTION_OVERRIDE \<mapsto> 1, ROLE_MANIPULATION \<mapsto> 8 / 10, CONTEXT_ESCAPE \<mapsto> 9 / 10,
      DATA_EXFILTRATION \<mapsto> 85 / 100, JAILBREAK \<mapsto> 1, ENCODING_ABUSE \<mapsto> 6 / 10,
      DELIMITER_ABUSE \<mapsto> 7 / 10, PROMPT_LEAKING \<mapsto> 75 / 100]"

definition default_scoring_config :: ScoringConfig where
  "default_scoring_config =
     \<lparr>pattern_weight = 7 / 10, heuristic_weight = 3 / 10, low_threshold = 2 / 10,
      medium_threshold = 4 / 10, high_threshold = 6 / 10, critical_threshold = 8 / 10,
      category_weights = default_category_weights\<rparr>"

text \<open>
  \<open>_calculate_pattern_score\<close>: the loop skips a match whose pattern name was seen and
  adds severity times category weight (0.5 for a category without weight) otherwise.
\<close>

fun pattern_loop :: "(PatternCategory \<rightharpoonup> real) \<Rightarrow> str list \<Rightarrow> real \<Rightarrow> real \<Rightarrow> PatternMatch list
    \<Rightarrow> str list \<times> real \<times> real" where
  "pattern_loop w seen_patterns total_weight weighted_severity [] =
     (seen_patterns, total_weight, weighted_severity)"
| "pattern_loop w seen_patterns total_weight weighted_severity (m # ms) =
     (if name (m_pattern m) \<in> set seen_patterns
      then pattern_loop w seen_patterns total_weight weighted_severity ms
      else
        let category_weight =
              (case w (category (m_pattern m)) of None \<Rightarrow> 5 / 10 | Some x \<Rightarrow> x)
        in pattern_loop w (name (m_pattern m) # seen_patterns) (total_weight + category_weight)
             (weighted_severity + severity (m_pattern m) * category_weight) ms)"

definition calculate_pattern_score :: "ScoringConfig \<Rightarrow> PatternMatch list \<Rightarrow> real" where
  "calculate_pattern_score cfg ms =
     (if ms = [] then 0
      else
        case pattern_loop (category_weights cfg) [] 0 0 ms of
          (seen_patterns, total_weight, weighted_severity) \<Rightarrow>
            let base_score = (if total_weight > 0 then weighted_severity / total_weight else 0);
                match_count_boost = min (3 / 10) (real (length seen_patterns) * (5 / 100))
            in min 1 (base_score + match_count_boost))"

definition calculate_heuristic_score :: "HeuristicResult list \<Rightarrow> real" where
  "calculate_heuristic_score results =
     (if results = [] then 0
      else
        let total_score = (\<Sum>r\<leftarrow>filter triggered results. score r);
            triggered_count = length (filter triggered results)
        in if triggered_count = 0 then 0
           else
             let avg_score = total_score / real triggered_count;
                 count_boost = min (2 / 10) (real triggered_count * (4 / 100))
             in min 1 (avg_score + count_boost))"

definition determine_risk_level :: "ScoringConfig \<Rightarrow> real \<Rightarrow> RiskLevel" where
  "determine_risk_level cfg s =
     (if s \<ge> critical_threshold cfg then CRITICAL
      else if s \<ge> high_threshold cfg then HIGH
      else if s \<ge> medium_threshold cfg then MEDIUM
      else if s \<ge> low_threshold cfg then LOW
      else SAFE)"

definition risk_score :: "ScoringConfig \<Rightarrow> PatternMatch list \<Rightarrow> HeuristicResult list \<Rightarrow> RiskScore" where
  "risk_score cfg pattern_matches heuristic_results =
     (let ps = calculate_pattern_score cfg pattern_matches;
          hs = calculate_heuristic_score heuristic_results;
          combined = ps * pattern_weight cfg + hs * heuristic_weight cfg;
          overall = (if list_ex (\<lambda>m. severity (m_pattern m) > 9 / 10) pattern_matches
                     then min 1 (combined * (13 / 10)) else combined)
      in \<lparr>overall_score = overall, risk_level = determine_risk_level cfg overall,
          pattern_score = ps, heuristic_score = hs\<rparr>)"

text \<open>The order safe < low < medium < high < critical, as a rank.\<close>

fun level_rank :: "RiskLevel \<Rightarrow> nat" where
  "level_rank SAFE = 0"
| "level_rank LOW = 1"
| "level_rank MEDIUM = 2"
| "level_rank HIGH = 3"
| "level_rank CRITICAL = 4"

section \<open>The Python library: substrings and HTML entities\<close>

text \<open>
  \<open>sub in text\<close>, \<open>text.count(sub)\<close> and \<open>text.replace(old, new)\<close>: occurrences are
  taken from the left and do not overlap; the empty string occurs before every code point
  and at the end.
\<close>

fun starts_with :: "str \<Rightarrow> str \<Rightarrow> bool" where
  "starts_with [] t = True"
| "starts_with (p # ps) [] = False"
| "starts_with (p # ps) (c # cs) = (p = c \<and> starts_with ps cs)"

fun contains :: "str \<Rightarrow> str \<Rightarrow> bool" where
  "contains sub [] = (sub = [])"
| "contains sub (c # cs) = (starts_with sub (c # cs) \<or> contains sub cs)"

fun count_from :: "str \<Rightarrow> str \<Rightarrow> nat" where
  "count_from sub [] = 0"
| "count_from sub (c # cs) =
     (if starts_with sub (c # cs) then 1 + count_from sub (drop (length sub - 1) cs)
      else count_from sub cs)"

definition str_count :: "str \<Rightarrow> str \<Rightarrow> nat" where
  "str_count sub t = (if sub = [] then length t + 1 else count_from sub t)"

fun replace_from :: "str \<Rightarrow> str \<Rightarrow> str \<Rightarrow> str" where
  "replace_from old new [] = []"
| "replace_from old new (c # cs) =
     (if starts_with old (c # cs) then new @ replace_from old new (drop (length old - 1) cs)
      else c # replace_from old new cs)"

definition str_replace :: "str \<Rightarrow> str \<Rightarrow> str \<Rightarrow> str" where
  "str_replace old new t =
     (if old = [] then new @ concat (map (\<lambda>c. c # new) t) else replace_from old new t)"

text \<open>
  \<open>html.unescape\<close> as CPython implements it: a text without \<open>&\<close> is returned as it
  is; otherwise every match of the character-reference pattern
  \<open>&(#[0-9]+;?|#[xX][0-9a-fA-F]+;?|[^\t\n\f <&#;]{1,32};?)\<close> is replaced. The tables of
  the library (the named references \<open>html5\<close>, the replacements \<open>invalid_charrefs\<close> and
  the set \<open>invalid_codepoints\<close>) are a parameter.
\<close>

record html_db =
  html5 :: "str \<rightharpoonup> str"
  invalid_charrefs :: "nat \<rightharpoonup> str"
  invalid_codepoints :: "nat \<Rightarrow> bool"

definition charref_re :: regex where
  "charref_re =
     Seq (Chars False [Lit 38])
       (Seq (Alt (Seq (Chars False [Lit 35])
                   (Seq (Rep 1 None (Chars False [Rng 48 57]))
                     (Seq (Rep 0 (Some 1) (Chars False [Lit 59])) Eps)))
              (Alt (Seq (Chars False [Lit 35])
                     (Seq (Chars False [Lit 120, Lit 88])
                       (Seq (Rep 1 None (Chars False [Rng 48 57, Rng 97 102, Rng 65 70]))
                         (Seq (Rep 0 (Some 1) (Chars False [Lit 59])) Eps))))
                (Seq (Rep 1 (Some 32)
                       (Chars True [Lit 9, Lit 10, Lit 12, Lit 32, Lit 60, Lit 38, Lit 35, Lit 59]))
                  (Seq (Rep 0 (Some 1) (Chars False [Lit 59])) Eps))))
         Eps)"

text \<open>
  \<open>int(digits, base)\<close> on the digits that the pattern let through, and the search for the
  longest prefix of a name that is in the table (\<open>for x in range(len(s)-1, 1, -1)\<close>).
\<close>

fun int_of_digits :: "nat \<Rightarrow> nat \<Rightarrow> str \<Rightarrow> nat" where
  "int_of_digits base acc [] = acc"
| "int_of_digits base acc (c # cs) =
     int_of_digits base (base * acc + (case hex_val c of None \<Rightarrow> 0 | Some v \<Rightarrow> v)) cs"

definition rstrip_semicolon :: "str \<Rightarrow> str" where
  "rstrip_semicolon s = rev (dropWhile (\<lambda>c. c = 59) (rev s))"

fun longest_prefix :: "(str \<rightharpoonup> str) \<Rightarrow> str \<Rightarrow> nat \<Rightarrow> str option" where
  "longest_prefix h s 0 = None"
| "longest_prefix h s (Suc x) =
     (if Suc x \<le> 1 then None
      else case h (take (Suc x) s) of
             Some v \<Rightarrow> Some (v @ drop (Suc x) s)
           | None \<Rightarrow> longest_prefix h s x)"

definition replace_charref :: "html_db \<Rightarrow> str \<Rightarrow> str" where
  "replace_charref H m =
     (case drop 1 m of
        [] \<Rightarrow> m
      | c # cs \<Rightarrow>
          if c = 35 then
            (let num = (case cs of
                          [] \<Rightarrow> 0
                        | x # ds \<Rightarrow>
                            if x = 120 \<or> x = 88 then int_of_digits 16 0 (rstrip_semicolon ds)
                            else int_of_digits 10 0 (rstrip_semicolon cs))
             in case invalid_charrefs H num of
                  Some r \<Rightarrow> r
                | None \<Rightarrow>
                    if (0xD800 \<le> num \<and> num \<le> 0xDFFF) \<or> num > 0x10FFFF then [0xFFFD]
                    else if invalid_codepoints H num then []
                    else [num])
          else
            (case html5 H (c # cs) of
               Some r \<Rightarrow> r
             | None \<Rightarrow>
                 (case longest_prefix (html5 H) (c # cs) (length (c # cs) - 1) of
                    Some r \<Rightarrow> r
                  | None \<Rightarrow> 38 # c # cs)))"

definition html_unescape :: "html_db \<Rightarrow> str \<Rightarrow> str" where
  "html_unescape H t = (if 38 \<notin> set t then t else re_sub charref_re (replace_charref H) t)"

text \<open>\<open>html.escape\<close> with its default \<open>quote=True\<close>.\<close>

definition html_escape :: "str \<Rightarrow> str" where
  "html_escape t =
     str_replace (ascii [CHR 0x27]) (ascii ''&#x27;'')
       (str_replace (ascii ''\"'') (ascii ''&quot;'')
         (str_replace (ascii ''>'') (ascii ''&gt;'')
           (str_replace (ascii ''<'') (ascii ''&lt;'')
             (str_replace (ascii ''&'') (ascii ''&amp;'') t))))"

section \<open>sanitizer.py\<close>

text \<open>
  \<open>SanitizerConfig\<close>. The flags carry the prefix \<open>opt_\<close>, since three of them share
  their name with a method; \<open>max_length\<close> is \<open>san_max_length\<close>. The dictionary of
  custom replacements is the list of its items in insertion order.
\<close>

record SanitizerConfig =
  san_max_length :: int
  opt_truncate_on_overflow :: bool
  opt_strip_control_chars :: bool
  opt_strip_invisible_unicode :: bool
  opt_normalize_whitespace :: bool
  opt_escape_delimiters :: bool
  delimiter_escape_char :: str
  opt_escape_html :: bool
  opt_strip_html_tags :: bool
  opt_decode_html_entities :: bool
  opt_strip_unicode_homoglyphs :: bool
  custom_replacements :: "(str \<times> str) list"

definition default_sanitizer_config :: SanitizerConfig where
  "default_sanitizer_config =
     \<lparr>san_max_length = 10000, opt_truncate_on_overflow = True, opt_strip_control_chars = True,
      opt_strip_invisible_unicode = True, opt_normalize_whitespace = True,
      opt_escape_delimiters = True, delimiter_escape_char = [92], opt_escape_html = False,
      opt_strip_html_tags = True, opt_decode_html_entities = True,
      opt_strip_unicode_homoglyphs = True, custom_replacements = []\<rparr>"

text \<open>
  \<open>InputSanitizer\<close>: the configuration and the three tables that \<open>__init__\<close> sets up.
  A key of \<open>homoglyphs\<close> is one code point (the loop looks up single characters).
\<close>

record InputSanitizer =
  config :: SanitizerConfig
  dangerous_delimiters :: "str list"
  invisible_ranges :: "(nat \<times> nat) list"
  homoglyphs :: "(nat \<times> str) list"

definition InputSanitizer_init :: "SanitizerConfig \<Rightarrow> InputSanitizer" where
  "InputSanitizer_init cfg =
     \<lparr>config = cfg,
      dangerous_delimiters = map ascii
        [''[INST]'', ''[/INST]'',
         ''[SYS]'', ''[/SYS]'',
         ''<<SYS>>'', ''<</SYS>>'',
         ''<|im_start|>'', ''<|im_end|>'',
         ''<|system|>'', ''<|user|>'', ''<|assistant|>'',
         ''###'', ''---'',
         ''<system>'', ''</system>''],
      invisible_ranges = [(0x200B, 0x200F), (0x2028, 0x202F), (0x2060, 0x206F), (0xFEFF, 0xFEFF)],
      homoglyphs =
        [(0x430, ascii ''a''), (0x435, ascii ''e''), (0x43E, ascii ''o''), (0x440, ascii ''p''),
         (0x441, ascii ''c''), (0x445, ascii ''x''), (0x443, ascii ''y''), (0x456, ascii ''i'')]\<rparr>"

text \<open>
  \<open>SanitizationResult\<close>. An entry of \<open>changes_made\<close> is an f-string of the source; the
  constructors stand for \<open>truncated_to_{n}\<close>, \<open>removed_{n}_control_chars\<close>,
  \<open>removed_{n}_invisible_chars\<close>, \<open>normalized_{n}_homoglyphs\<close>,
  \<open>decoded_html_entities\<close>, \<open>stripped_html_tags\<close>, \<open>escaped_html\<close>,
  \<open>normalized_whitespace\<close>, \<open>escaped_{n}_delimiters\<close> and \<open>replaced_{pattern}\<close>.
\<close>

datatype change =
    Truncated_to int
  | Removed_control_chars nat
  | Removed_invisible_chars nat
  | Normalized_homoglyphs nat
  | Decoded_html_entities
  | Stripped_html_tags
  | Escaped_html
  | Normalized_whitespace
  | Escaped_delimiters nat
  | Replaced str

record SanitizationResult =
  original :: str
  sanitized :: str
  changes_made :: "change list"
  removed_count :: nat
  modified :: bool

text \<open>The helper methods. \<open>text[:n]\<close> counts a negative \<open>n\<close> from the end.\<close>

definition slice_to :: "str \<Rightarrow> int \<Rightarrow> str" where
  "slice_to t n = (if n \<ge> 0 then take (nat n) t else take (length t - nat (- n)) t)"

definition strip_control_chars :: "str \<Rightarrow> str \<times> nat" where
  "strip_control_chars t =
     (filter (\<lambda>c. \<not> (c < 32 \<and> c \<notin> {10, 13, 9})) t,
      length (filter (\<lambda>c. c < 32 \<and> c \<notin> {10, 13, 9}) t))"

definition is_invisible :: "(nat \<times> nat) list \<Rightarrow> nat \<Rightarrow> bool" where
  "is_invisible ranges c = list_ex (\<lambda>(lo, hi). lo \<le> c \<and> c \<le> hi) ranges"

definition strip_invisible_unicode :: "InputSanitizer \<Rightarrow> str \<Rightarrow> str \<times> nat" where
  "strip_invisible_unicode S t =
     (filter (\<lambda>c. \<not> is_invisible (invisible_ranges S) c) t,
      length (filter (is_invisible (invisible_ranges S)) t))"

definition normalize_homoglyphs :: "InputSanitizer \<Rightarrow> str \<Rightarrow> str \<times> nat" where
  "normalize_homoglyphs S t =
     (concat (map (\<lambda>c. case map_of (homoglyphs S) c of Some r \<Rightarrow> r | None \<Rightarrow> [c]) t),
      length (filter (\<lambda>c. map_of (homoglyphs S) c \<noteq> None) t))"

text \<open>The patterns \<open>r'<[^>]+>'\<close>, \<open>r'[ \t]+'\<close> and \<open>r'\n{3,}'\<close> in compiled form.\<close>

definition html_tag_re :: regex where
  "html_tag_re =
     Seq (Chars False [Lit 60]) (Seq (Rep 1 None (Chars True [Lit 62])) (Seq (Chars False [Lit 62]) Eps))"

definition blanks_re :: regex where
  "blanks_re = Seq (Rep 1 None (Chars False [Lit 32, Lit 9])) Eps"

definition newlines_re :: regex where
  "newlines_re = Seq (Rep 3 None (Chars False [Lit 10])) Eps"

definition strip_html_tags :: "str \<Rightarrow> str" where
  "strip_html_tags t = re_sub html_tag_re (\<lambda>_. []) t"

definition normalize_whitespace :: "str \<Rightarrow> str" where
  "normalize_whitespace t =
     py_strip (re_sub newlines_re (\<lambda>_. [10, 10]) (re_sub blanks_re (\<lambda>_. [32]) t))"

definition escaped_delimiter :: "str \<Rightarrow> str \<Rightarrow> str" where
  "escaped_delimiter esc delimiter =
     concat (map (\<lambda>c. if c \<in> set (ascii ''[]<>|'') then esc @ [c] else [c]) delimiter)"

fun escape_loop :: "str \<Rightarrow> str list \<Rightarrow> str \<Rightarrow> nat \<Rightarrow> str \<times> nat" where
  "escape_loop esc [] t escaped = (t, escaped)"
| "escape_loop esc (delimiter # ds) t escaped =
     (if contains delimiter t
      then escape_loop esc ds (str_replace delimiter (escaped_delimiter esc delimiter) t)
             (escaped + str_count delimiter t)
      else escape_loop esc ds t escaped)"

definition escape_delimiters :: "InputSanitizer \<Rightarrow> str \<Rightarrow> str \<times> nat" where
  "escape_delimiters S t =
     escape_loop (delimiter_escape_char (config S)) (dangerous_delimiters S) t 0"

text \<open>
  \<open>sanitize\<close>. The state that the stages thread is the text, the list of changes and
  the removed count; each \<open>stage_\<close> function is one \<open>if\<close> block of the method, in the
  order of the source.
\<close>

type_synonym san_state = "str \<times> change list \<times> nat"

definition stage_truncate :: "SanitizerConfig \<Rightarrow> san_state \<Rightarrow> san_state" where
  "stage_truncate cfg st =
     (case st of (t, changes, removed) \<Rightarrow>
        if int (length t) > san_max_length cfg \<and> opt_truncate_on_overflow cfg then
          let t' = slice_to t (san_max_length cfg)
          in (t', changes @ [Truncated_to (san_max_length cfg)], removed + (length t - length t'))
        else st)"

definition stage_control :: "SanitizerConfig \<Rightarrow> san_state \<Rightarrow> san_state" where
  "stage_control cfg st =
     (case st of (t, changes, removed) \<Rightarrow>
        if opt_strip_control_chars cfg then
          (case strip_control_chars t of (new_text, n) \<Rightarrow>
             if n > 0 then (new_text, changes @ [Removed_control_chars n], removed + n) else st)
        else st)"

definition stage_invisible :: "InputSanitizer \<Rightarrow> san_state \<Rightarrow> san_state" where
  "stage_invisible S st =
     (case st of (t, changes, removed) \<Rightarrow>
        if opt_strip_invisible_unicode (config S) then
          (case strip_invisible_unicode S t of (new_text, n) \<Rightarrow>
             if n > 0 then (new_text, changes @ [Removed_invisible_chars n], removed + n) else st)
        else st)"

definition stage_homoglyphs :: "InputSanitizer \<Rightarrow> san_state \<Rightarrow> san_state" where
  "stage_homoglyphs S st =
     (case st of (t, changes, removed) \<Rightarrow>
        if opt_strip_unicode_homoglyphs (config S) then
          (case normalize_homoglyphs S t of (new_text, n) \<Rightarrow>
             if n > 0 then (new_text, changes @ [Normalized_homoglyphs n], removed) else st)
        else st)"

definition stage_entities :: "html_db \<Rightarrow> SanitizerConfig \<Rightarrow> san_state \<Rightarrow> san_state" where
  "stage_entities H cfg st =
     (case st of (t, changes, removed) \<Rightarrow>
        if opt_decode_html_entities cfg then
          (let new_text = html_unescape H t
           in if new_text \<noteq> t then (new_text, changes @ [Decoded_html_entities], removed) else st)
        else st)"

definition stage_tags :: "SanitizerConfig \<Rightarrow> san_state \<Rightarrow> san_state" where
  "stage_tags cfg st =
     (case st of (t, changes, removed) \<Rightarrow>
        if opt_strip_html_tags cfg then
          (let new_text = strip_html_tags t
           in if new_text \<noteq> t
              then (new_text, changes @ [Stripped_html_tags], removed + (length t - length new_text))
              else st)
        else st)"

definition stage_escape_html :: "SanitizerConfig \<Rightarrow> san_state \<Rightarrow> san_state" where
  "stage_escape_html cfg st =
     (case st of (t, changes, removed) \<Rightarrow>
        if opt_escape_html cfg then
          (let new_text = html_escape t
           in if new_text \<noteq> t then (new_text, changes @ [Escaped_html], removed) else st)
        else st)"

definition stage_whitespace :: "SanitizerConfig \<Rightarrow> san_state \<Rightarrow> san_state" where
  "stage_whitespace cfg st =
     (case st of (t, changes, removed) \<Rightarrow>
        if opt_normalize_whitespace cfg then
          (let new_text = normalize_whitespace t
           in if new_text \<noteq> t then (new_text, changes @ [Normalized_whitespace], removed) else st)
        else st)"

definition stage_delimiters :: "InputSanitizer \<Rightarrow> san_state \<Rightarrow> san_state" where
  "stage_delimiters S st =
     (case st of (t, changes, removed) \<Rightarrow>
        if opt_escape_delimiters (config S) then
          (case escape_delimiters S t of (new_text, n) \<Rightarrow>
             if n > 0 then (new_text, changes @ [Escaped_delimiters n], removed) else st)
        else st)"

fun stage_custom :: "(str \<times> str) list \<Rightarrow> san_state \<Rightarrow> san_state" where
  "stage_custom [] st = st"
| "stage_custom ((pattern', replacement) # rest) (t, changes, removed) =
     (if contains pattern' t
      then stage_custom rest (str_replace pattern' replacement t, changes @ [Replaced pattern'], removed)
      else stage_custom rest (t, changes, removed))"

definition sanitize :: "html_db \<Rightarrow> InputSanitizer \<Rightarrow> str \<Rightarrow> SanitizationResult" where
  "sanitize H S t =
     (let cfg = config S;
          st = stage_custom (custom_replacements cfg)
                (stage_delimiters S
                  (stage_whitespace cfg
                    (stage_escape_html cfg
                      (stage_tags cfg
                        (stage_entities H cfg
                          (stage_homoglyphs S
                            (stage_invisible S
                              (stage_control cfg
                                (stage_truncate cfg (t, [], 0))))))))))
      in case st of (t', changes, removed) \<Rightarrow>
           \<lparr>original = t, sanitized = t', changes_made = changes, removed_count = removed,
            modified = (t \<noteq> t')\<rparr>)"

section \<open>detector.py\<close>

text \<open>
  \<open>DetectorConfig\<close>: an absent component configuration is \<open>None\<close> and stands for the
  default one. The callback \<open>on_detection\<close> is called with the finished result and its
  exceptions are discarded; it is taken to observe the result only and is left out.
\<close>

record DetectorConfig =
  enable_patterns :: bool
  enable_heuristics :: bool
  enable_sanitization :: bool
  heuristic_config :: "HeuristicConfig option"
  scoring_config :: "ScoringConfig option"
  sanitizer_config :: "SanitizerConfig option"
  block_threshold :: real
  warn_threshold :: real

definition default_detector_config :: DetectorConfig where
  "default_detector_config =
     \<lparr>enable_patterns = True, enable_heuristics = True, enable_sanitization = True,
      heuristic_config = None, scoring_config = None, sanitizer_config = None,
      block_threshold = 6 / 10, warn_threshold = 3 / 10\<rparr>"

record Detection =
  input_text :: str
  d_risk_score :: RiskScore
  pattern_matches :: "PatternMatch list"
  heuristic_results :: "HeuristicResult list"
  sanitization :: "SanitizationResult option"
  should_block :: bool
  should_warn :: bool

text \<open>
  The detector: its configuration and its pattern list; the analyzer, the scorer and the
  sanitizer are built from the configuration (\<open>config or Default()\<close>). The library is
  the compile function, the unicode database and the HTML tables.
\<close>

record py_lib =
  lib_compile :: "str \<Rightarrow> nat \<Rightarrow> Pattern option"
  lib_unicode :: unicode_db
  lib_html :: html_db

record PromptInjectionDetector =
  det_config :: DetectorConfig
  det_patterns :: "InjectionPattern list"

definition PromptInjectionDetector_init :: "DetectorConfig option \<Rightarrow> InjectionPattern list option \<Rightarrow> PromptInjectionDetector" where
  "PromptInjectionDetector_init cfg patterns =
     \<lparr>det_config = (case cfg of None \<Rightarrow> default_detector_config | Some c \<Rightarrow> c),
      det_patterns = PatternMatcher patterns\<rparr>"

definition detect :: "py_lib \<Rightarrow> PromptInjectionDetector \<Rightarrow> str \<Rightarrow> py_error + Detection" where
  "detect L D t =
     (let cfg = det_config D;
          hcfg = (case heuristic_config cfg of None \<Rightarrow> default_heuristic_config | Some c \<Rightarrow> c);
          scfg = (case scoring_config cfg of None \<Rightarrow> default_scoring_config | Some c \<Rightarrow> c);
          S = InputSanitizer_init
                (case sanitizer_config cfg of None \<Rightarrow> default_sanitizer_config | Some c \<Rightarrow> c)
      in case (if enable_patterns cfg
               then match_patterns (lib_compile L) (lib_unicode L) (det_patterns D) t 50
               else Inr []) of
           Inl e \<Rightarrow> Inl e
         | Inr ms \<Rightarrow>
             (case (if enable_heuristics cfg then analyze (lib_unicode L) hcfg t else Inr []) of
                Inl e \<Rightarrow> Inl e
              | Inr hs \<Rightarrow>
                  let rs = risk_score scfg ms hs;
                      san = (if enable_sanitization cfg then Some (sanitize (lib_html L) S t)
                             else None);
                      block = (overall_score rs \<ge> block_threshold cfg);
                      warn = (overall_score rs \<ge> warn_threshold cfg \<and> \<not> block)
                  in Inr \<lparr>input_text = t, d_risk_score = rs, pattern_matches = ms,
                          heuristic_results = hs, sanitization = san,
                          should_block = block, should_warn = warn\<rparr>))"

section \<open>Concrete libraries for closed statements\<close>

text \<open>
  A closed statement needs a closed library. \<open>no_unicode\<close> is a database that knows no
  letter above 127; the statements that use it are about ASCII texts, on which it is not
  consulted. \<open>xml_entities\<close> holds the entries of \<open>html.entities.html5\<close> for the five
  predefined XML entities (\<open>amp lt gt quot\<close> also without semicolon) and none of the
  invalid code points.
\<close>

definition no_unicode :: unicode_db where
  "no_unicode =
     \<lparr>u_lower = (\<lambda>t. t), u_isalpha = (\<lambda>c. False), u_isalnum = (\<lambda>c. False),
      u_ci_member = (\<lambda>it c. item_match it c)\<rparr>"

definition xml_entities :: html_db where
  "xml_entities =
     \<lparr>html5 = map_of
        [(ascii ''amp;'', ascii ''&''), (ascii ''amp'', ascii ''&''),
         (ascii ''lt;'', ascii ''<''), (ascii ''lt'', ascii ''<''),
         (ascii ''gt;'', ascii ''>''), (ascii ''gt'', ascii ''>''),
         (ascii ''quot;'', ascii ''\"''), (ascii ''quot'', ascii ''\"''),
         (ascii ''apos;'', ascii [CHR 0x27])],
      invalid_charrefs = Map.empty,
      invalid_codepoints = (\<lambda>c. False)\<rparr>"

definition closed_lib :: py_lib where
  "closed_lib = \<lparr>lib_compile = re_compile, lib_unicode = no_unicode, lib_html = xml_entities\<rparr>"

section \<open>The catalog\<close>

lemma get_pattern_None_iff: "get_pattern nm ps = None \<longleftrightarrow> nm \<notin> name ` set ps"
  by (induction ps) auto

lemma length_filter_name:
  "length (filter (\<lambda>p. name p \<noteq> nm) ps) + length (filter (\<lambda>p. name p = nm) ps) = length ps"
  by (induction ps) auto

lemma filter_name_nonempty:
  "nm \<in> name ` set ps \<longleftrightarrow> 0 < length (filter (\<lambda>p. name p = nm) ps)"
  by (induction ps) auto

lemma distinct_names_one:
  "distinct (map name ps) \<Longrightarrow> nm \<in> name ` set ps \<Longrightarrow> length (filter (\<lambda>p. name p = nm) ps) = 1"
proof (induction ps)
  case Nil
  then show ?case by simp
next
  case (Cons p ps)
  show ?case
  proof (cases "name p = nm")
    case True
    with Cons.prems have "nm \<notin> name ` set ps" by auto
    then have "filter (\<lambda>q. name q = nm) ps = []"
      by (auto simp: filter_empty_conv)
    with True show ?thesis by simp
  next
    case False
    with Cons show ?thesis by auto
  qed
qed

lemma default_names_distinct: "distinct (map name default_patterns)"
  by (simp add: default_patterns_def pat_def ascii_def)

text \<open>
  C9, as stated, fails: \<open>add_pattern\<close> does not look at the names already present, and
  \<open>remove_pattern\<close> drops every entry with the name. After adding a pattern named
  \<open>dup\<close> to a catalog that holds one already, removing \<open>dup\<close> succeeds and the list
  is shorter by two.
\<close>

theorem remove_pattern_removes_two:
  "snd (remove_pattern (ascii ''dup'')
          (add_pattern (pat ''dup'' ''b'' JAILBREAK (1 / 2))
             (PatternMatcher (Some [pat ''dup'' ''a'' JAILBREAK (1 / 2)])))) = True \<and>
   length (add_pattern (pat ''dup'' ''b'' JAILBREAK (1 / 2))
             (PatternMatcher (Some [pat ''dup'' ''a'' JAILBREAK (1 / 2)]))) = 2 \<and>
   length (fst (remove_pattern (ascii ''dup'')
          (add_pattern (pat ''dup'' ''b'' JAILBREAK (1 / 2))
             (PatternMatcher (Some [pat ''dup'' ''a'' JAILBREAK (1 / 2)]))))) = 0"
  by (simp add: remove_pattern_def add_pattern_def PatternMatcher_def pat_def)

text \<open>
  C9, amended. After \<open>add_pattern p\<close>, \<open>get_pattern\<close> finds a pattern under the name
  of \<open>p\<close>, and it carries that name. \<open>remove_pattern\<close> returns whether the name was
  present and keeps exactly the entries with another name, in their order: the list
  shrinks by the number of entries with the name, which is one when the names of the
  catalog are distinct.
\<close>

theorem catalog_round_trip:
  "(\<exists>q. get_pattern (name p) (add_pattern p ps) = Some q \<and> name q = name p) \<and>
   snd (remove_pattern nm ps) = (nm \<in> name ` set ps) \<and>
   fst (remove_pattern nm ps) = filter (\<lambda>q. name q \<noteq> nm) ps \<and>
   length (fst (remove_pattern nm ps)) + length (filter (\<lambda>q. name q = nm) ps) = length ps \<and>
   (distinct (map name ps) \<and> nm \<in> name ` set ps \<longrightarrow>
      length (fst (remove_pattern nm ps)) + 1 = length ps)"
proof -
  have found: "\<exists>q. get_pattern (name p) (add_pattern p ps) = Some q \<and> name q = name p"
    unfolding add_pattern_def by (induction ps) auto
  have len: "length (filter (\<lambda>q. name q \<noteq> nm) ps) + length (filter (\<lambda>q. name q = nm) ps) = length ps"
    by (rule length_filter_name)
  have "snd (remove_pattern nm ps) = (length (filter (\<lambda>q. name q \<noteq> nm) ps) < length ps)"
    by (simp add: remove_pattern_def Let_def)
  also have "\<dots> = (0 < length (filter (\<lambda>q. name q = nm) ps))"
    using len by arith
  also have "\<dots> = (nm \<in> name ` set ps)"
    by (rule filter_name_nonempty [symmetric])
  finally have ret: "snd (remove_pattern nm ps) = (nm \<in> name ` set ps)" .
  have one: "distinct (map name ps) \<and> nm \<in> name ` set ps \<longrightarrow>
      length (fst (remove_pattern nm ps)) + 1 = length ps"
    using len distinct_names_one [of ps nm] by (auto simp: remove_pattern_def Let_def)
  show ?thesis
    using found len ret one by (simp add: remove_pattern_def Let_def)
qed

theorem catalog_round_trip_witness:
  "distinct (map name default_patterns) \<and>
   ascii ''dan_jailbreak'' \<in> name ` set default_patterns \<and>
   snd (remove_pattern (ascii ''dan_jailbreak'') default_patterns) = True \<and>
   length (fst (remove_pattern (ascii ''dan_jailbreak'') default_patterns)) + 1 = 25"
proof -
  have d: "distinct (map name default_patterns)"
    by (rule default_names_distinct)
  have m: "ascii ''dan_jailbreak'' \<in> name ` set default_patterns"
    by (simp add: default_patterns_def pat_def)
  have l: "length default_patterns = 25"
    by (simp add: default_patterns_def)
  show ?thesis
    using d m l catalog_round_trip [of "pat ''x'' ''x'' JAILBREAK 0" default_patterns "ascii ''dan_jailbreak''"]
    by auto
qed

section \<open>Risk levels\<close>

text \<open>
  C6. For fixed thresholds the risk level is a function of the score (equal scores give
  equal levels) and it is monotonic: a score that is greater than or equal to another
  never gets a strictly lower level in the order safe < low < medium < high < critical.
  This holds for every configuration, also one whose thresholds are not ascending.
\<close>

theorem risk_level_monotonic:
  "(s1 = s2 \<longrightarrow> determine_risk_level cfg s1 = determine_risk_level cfg s2) \<and>
   (s1 \<le> s2 \<longrightarrow> level_rank (determine_risk_level cfg s1) \<le> level_rank (determine_risk_level cfg s2))"
  by (auto simp: determine_risk_level_def)

theorem risk_level_monotonic_witness:
  "(5 / 10 :: real) \<le> 7 / 10 \<and>
   determine_risk_level default_scoring_config (5 / 10) = MEDIUM \<and>
   determine_risk_level default_scoring_config (7 / 10) = HIGH \<and>
   level_rank (determine_risk_level default_scoring_config (5 / 10))
     \<le> level_rank (determine_risk_level default_scoring_config (7 / 10))"
  using risk_level_monotonic [of "5 / 10" "7 / 10" default_scoring_config]
  by (simp add: determine_risk_level_def default_scoring_config_def)

section \<open>The combined heuristic score\<close>

lemma combine_loop_sums:
  "combine_loop cfg tw ws rs =
     (tw + (\<Sum>r\<leftarrow>rs. weight_of cfg r), ws + (\<Sum>r\<leftarrow>rs. score r * weight_of cfg r))"
  by (induction rs arbitrary: tw ws) (simp_all add: Let_def add.assoc)

text \<open>
  C2, as stated, fails: the loop never reads \<open>triggered\<close>. A text of eleven Latin and
  eleven Cyrillic letters has two active scripts, so \<open>check_language_switch\<close> returns a
  result that is not triggered and has score 0.3; the combined score of that result alone
  is 0.3, not 0.
\<close>

theorem combined_score_counts_untriggered:
  "triggered (check_language_switch (replicate 11 0x61 @ replicate 11 0x431)) = False \<and>
   get_combined_score default_heuristic_config
     [check_language_switch (replicate 11 0x61 @ replicate 11 0x431)] = 3 / 10"
  by (simp add: check_language_switch_def script_counts_def get_combined_score_def
      weight_of_def default_heuristic_config_def default_weights_def Let_def)

text \<open>
  C2, amended. \<open>get_combined_score\<close> returns the weighted mean of the scores of all
  results of the list, triggered or not, with the configured weight of each kind (0.1 for
  a kind without one), and 0 when the weights do not add up to a positive number, as for
  the empty list.
\<close>

theorem combined_score_weighted_mean:
  "get_combined_score cfg rs =
     (if (\<Sum>r\<leftarrow>rs. weight_of cfg r) > 0
      then (\<Sum>r\<leftarrow>rs. score r * weight_of cfg r) / (\<Sum>r\<leftarrow>rs. weight_of cfg r)
      else 0) \<and>
   get_combined_score cfg [] = 0"
  by (simp add: get_combined_score_def combine_loop_sums)

section \<open>The sanitizer\<close>

text \<open>
  C10. For every text, every configuration and every state of the sanitizer's tables, the
  result has \<open>modified\<close> true exactly when the sanitized text differs from the original,
  and \<open>original\<close> is the input; the list of changes plays no part.
\<close>

theorem sanitize_modified_iff:
  "modified (sanitize H S t) = (original (sanitize H S t) \<noteq> sanitized (sanitize H S t)) \<and>
   original (sanitize H S t) = t"
  by (simp add: sanitize_def Let_def split: prod.splits)

end
